theory Spec2Isabelle
  imports Main
begin

section \<open>Password generator: the embedding of \<^verbatim>\<open>password-generator.py\<close>\<close>

text \<open>
  The module defines one class, \<^verbatim>\<open>PasswordGenerator\<close>, with a table of four character
  sets and three public methods: \<^verbatim>\<open>generate_password\<close>, \<^verbatim>\<open>generate_multiple_passwords\<close>
  and \<^verbatim>\<open>estimate_password_strength\<close>.

  \<^item> A Python \<^verbatim>\<open>str\<close> is a sequence of Unicode code points and \<^verbatim>\<open>len\<close> counts code points,
    so a password or a character pool is a list of code points (\<open>nat\<close>). Literal messages
    and labels stay HOL strings.
  \<^item> A Python \<^verbatim>\<open>int\<close> is an \<open>int\<close>.
  \<^item> Every \<^verbatim>\<open>raise\<close> is a value \<open>Inl e\<close> of a sum type.
  \<^item> The only effect is drawing from the operating system's random source through
    \<^verbatim>\<open>secrets.choice\<close>. The source of randomness is an arbitrary infinite sequence of
    naturals, and the state threaded through the calls is the number of draws made so far.
\<close>

subsection \<open>Data\<close>

type_synonym py_char = nat
type_synonym py_str = "py_char list"

datatype error =
    ValueError string
  | RuntimeError string
  | IndexError string

text \<open>The constants of Python's \<^verbatim>\<open>string\<close> module that the source uses.\<close>

definition string_ascii_lowercase :: py_str where
  "string_ascii_lowercase = map of_char ''abcdefghijklmnopqrstuvwxyz''"

definition string_ascii_uppercase :: py_str where
  "string_ascii_uppercase = map of_char ''ABCDEFGHIJKLMNOPQRSTUVWXYZ''"

definition string_digits :: py_str where
  "string_digits = map of_char ''0123456789''"

text \<open>
  \<^verbatim>\<open>string.punctuation\<close>: the 32 ASCII punctuation characters in code order. The double
  quote (0x22), the apostrophe (0x27), the backslash (0x5C) and the backquote (0x60) are
  written by their codes.
\<close>

definition string_punctuation :: py_str where
  \<open>string_punctuation = map of_char
     (''!'' @ [CHR 0x22] @ ''#$%&'' @ [CHR 0x27] @ ''()*+,-./:;<=>?@['' @ [CHR 0x5C]
      @ '']^_'' @ [CHR 0x60] @ ''{|}~'')\<close>

text \<open>\<^verbatim>\<open>self.character_sets\<close>, the dictionary built by \<^verbatim>\<open>__init__\<close>, with its four fixed keys.\<close>

record character_sets_t =
  lowercase :: py_str
  uppercase :: py_str
  digits :: py_str
  symbols :: py_str

definition character_sets :: character_sets_t where
  "character_sets =
     \<lparr> lowercase = string_ascii_lowercase,
       uppercase = string_ascii_uppercase,
       digits = string_digits,
       symbols = string_punctuation \<rparr>"

text \<open>The dictionary returned by \<^verbatim>\<open>estimate_password_strength\<close>; the key \<^verbatim>\<open>'length'\<close> is the
  field \<open>length_val\<close>.\<close>

record strength_report =
  score :: int
  strength :: string
  length_val :: int
  has_lowercase :: bool
  has_uppercase :: bool
  has_digits :: bool
  has_symbols :: bool

text \<open>
  The keyword arguments that \<^verbatim>\<open>generate_multiple_passwords\<close> passes on: each parameter of
  \<^verbatim>\<open>generate_password\<close> is given or left to its default.
\<close>

record kwargs =
  kw_length :: "int option"
  kw_use_lowercase :: "bool option"
  kw_use_uppercase :: "bool option"
  kw_use_digits :: "bool option"
  kw_use_symbols :: "bool option"
  kw_exclude_similar :: "bool option"

subsection \<open>The random source\<close>

text \<open>
  \<open>src i\<close> is the raw value of the \<open>i\<close>-th draw. \<^verbatim>\<open>secrets.choice(seq)\<close> raises
  \<^verbatim>\<open>IndexError\<close> on an empty sequence without drawing; otherwise it makes one draw and
  returns the element at an index below \<^verbatim>\<open>len(seq)\<close>. The index is the raw value
  modulo \<^verbatim>\<open>len(seq)\<close>: since the source is arbitrary, every index below \<^verbatim>\<open>len(seq)\<close> can
  be chosen at every draw, and nothing is assumed about how the draws are distributed.
\<close>

type_synonym entropy = "nat \<Rightarrow> nat"

definition secrets_choice :: "entropy \<Rightarrow> nat \<Rightarrow> py_str \<Rightarrow> (error + py_char) \<times> nat" where
  "secrets_choice src pos seq =
     (if seq = [] then (Inl (IndexError ''Cannot choose from an empty sequence''), pos)
      else (Inr (seq ! (src pos mod length seq)), Suc pos))"

subsection \<open>Helpers of the Python built-ins\<close>

text \<open>\<^verbatim>\<open>s.replace(c, '')\<close> for a one-character \<^verbatim>\<open>c\<close>: every occurrence is removed.\<close>

definition replace_empty :: "char \<Rightarrow> py_str \<Rightarrow> py_str" where
  "replace_empty c s = filter (\<lambda>x. x \<noteq> of_char c) s"

text \<open>\<^verbatim>\<open>any(ch in char_set for ch in password)\<close>.\<close>

definition any_in :: "py_str \<Rightarrow> py_str \<Rightarrow> bool" where
  "any_in char_set password = list_ex (\<lambda>ch. ch \<in> set char_set) password"

subsection \<open>\<^verbatim>\<open>_validate_parameters\<close>\<close>

definition validate_parameters :: "int \<Rightarrow> bool \<Rightarrow> bool \<Rightarrow> bool \<Rightarrow> bool \<Rightarrow> error + unit" where
  "validate_parameters len use_lowercase use_uppercase use_digits use_symbols =
     (if len < 8 then Inl (ValueError ''Password length must be at least 8 characters'')
      else if len > 128 then Inl (ValueError ''Password length cannot exceed 128 characters'')
      else if \<not> list_ex (\<lambda>b. b) [use_lowercase, use_uppercase, use_digits, use_symbols]
        then Inl (ValueError ''At least one character set must be selected'')
      else Inr ())"

subsection \<open>\<^verbatim>\<open>_build_character_pool\<close>\<close>

definition build_character_pool :: "bool \<Rightarrow> bool \<Rightarrow> bool \<Rightarrow> bool \<Rightarrow> bool \<Rightarrow> py_str" where
  "build_character_pool use_lowercase use_uppercase use_digits use_symbols exclude_similar =
     (let char_pool0 = [];
          char_pool1 =
            (if use_lowercase then
               (let lowercase_chars = lowercase character_sets;
                    lowercase_chars' =
                      (if exclude_similar
                       then replace_empty CHR ''o'' (replace_empty CHR ''l'' lowercase_chars)
                       else lowercase_chars)
                in char_pool0 @ [lowercase_chars'])
             else char_pool0);
          char_pool2 =
            (if use_uppercase then
               (let uppercase_chars = uppercase character_sets;
                    uppercase_chars' =
                      (if exclude_similar
                       then replace_empty CHR ''O'' (replace_empty CHR ''I'' uppercase_chars)
                       else uppercase_chars)
                in char_pool1 @ [uppercase_chars'])
             else char_pool1);
          char_pool3 =
            (if use_digits then
               (let digit_chars = digits character_sets;
                    digit_chars' =
                      (if exclude_similar
                       then replace_empty CHR ''1'' (replace_empty CHR ''0'' digit_chars)
                       else digit_chars)
                in char_pool2 @ [digit_chars'])
             else char_pool2);
          char_pool4 =
            (if use_symbols then char_pool3 @ [symbols character_sets] else char_pool3)
      in concat char_pool4)"

subsection \<open>\<^verbatim>\<open>_generate_secure_password\<close>\<close>

text \<open>
  \<^verbatim>\<open>''.join(secrets.choice(char_pool) for _ in range(length))\<close>: one call of
  \<^verbatim>\<open>secrets.choice\<close> for each of the \<^verbatim>\<open>range(length)\<close> iterations, left to right; an
  exception of a call ends the loop. \<^verbatim>\<open>range\<close> of a non-positive number is empty.
\<close>

fun draw_chars :: "entropy \<Rightarrow> nat \<Rightarrow> py_str \<Rightarrow> nat \<Rightarrow> (error + py_str) \<times> nat" where
  "draw_chars src pos char_pool 0 = (Inr [], pos)"
| "draw_chars src pos char_pool (Suc n) =
     (case secrets_choice src pos char_pool of
        (Inl e, pos') \<Rightarrow> (Inl e, pos')
      | (Inr c, pos') \<Rightarrow>
          (case draw_chars src pos' char_pool n of
             (Inl e, pos'') \<Rightarrow> (Inl e, pos'')
           | (Inr cs, pos'') \<Rightarrow> (Inr (c # cs), pos'')))"

definition generate_secure_password ::
  "py_str \<Rightarrow> int \<Rightarrow> entropy \<Rightarrow> nat \<Rightarrow> (error + py_str) \<times> nat" where
  "generate_secure_password char_pool len src pos = draw_chars src pos char_pool (nat len)"

subsection \<open>\<^verbatim>\<open>_ensure_password_requirements\<close>\<close>

definition requirements :: "bool \<Rightarrow> bool \<Rightarrow> bool \<Rightarrow> bool \<Rightarrow> (bool \<times> py_str \<times> string) list" where
  "requirements use_lowercase use_uppercase use_digits use_symbols =
     [(use_lowercase, string_ascii_lowercase, ''lowercase''),
      (use_uppercase, string_ascii_uppercase, ''uppercase''),
      (use_digits, string_digits, ''digits''),
      (use_symbols, string_punctuation, ''symbols'')]"

text \<open>The \<^verbatim>\<open>for\<close> loop over the requirements: the first unmet one raises.\<close>

fun check_requirements :: "py_str \<Rightarrow> (bool \<times> py_str \<times> string) list \<Rightarrow> error + unit" where
  "check_requirements password [] = Inr ()"
| "check_requirements password ((required, char_set, name) # rest) =
     (if required \<and> \<not> any_in char_set password
      then Inl (RuntimeError (''Failed to generate password with '' @ name @ '' characters''))
      else check_requirements password rest)"

definition ensure_password_requirements ::
  "py_str \<Rightarrow> bool \<Rightarrow> bool \<Rightarrow> bool \<Rightarrow> bool \<Rightarrow> error + unit" where
  "ensure_password_requirements password use_lowercase use_uppercase use_digits use_symbols =
     check_requirements password (requirements use_lowercase use_uppercase use_digits use_symbols)"

subsection \<open>\<^verbatim>\<open>generate_password\<close>\<close>

definition generate_password ::
  "int \<Rightarrow> bool \<Rightarrow> bool \<Rightarrow> bool \<Rightarrow> bool \<Rightarrow> bool \<Rightarrow> entropy \<Rightarrow> nat \<Rightarrow> (error + py_str) \<times> nat" where
  "generate_password len use_lowercase use_uppercase use_digits use_symbols exclude_similar src pos =
     (case validate_parameters len use_lowercase use_uppercase use_digits use_symbols of
        Inl e \<Rightarrow> (Inl e, pos)
      | Inr _ \<Rightarrow>
          (let char_pool =
                 build_character_pool use_lowercase use_uppercase use_digits use_symbols
                   exclude_similar
           in case generate_secure_password char_pool len src pos of
                (Inl e, pos') \<Rightarrow> (Inl e, pos')
              | (Inr password, pos') \<Rightarrow>
                  (case ensure_password_requirements password use_lowercase use_uppercase
                          use_digits use_symbols of
                     Inl e \<Rightarrow> (Inl e, pos')
                   | Inr _ \<Rightarrow> (Inr password, pos'))))"

subsection \<open>\<^verbatim>\<open>generate_multiple_passwords\<close>\<close>

text \<open>
  \<^verbatim>\<open>self.generate_password(**kwargs)\<close>: a parameter that is not given takes the default
  of the signature (\<^verbatim>\<open>length = 16\<close>, every flag \<^verbatim>\<open>True\<close>).
\<close>

definition arg_length :: "kwargs \<Rightarrow> int" where
  "arg_length kw = (case kw_length kw of None \<Rightarrow> 16 | Some n \<Rightarrow> n)"

definition arg_flag :: "bool option \<Rightarrow> bool" where
  "arg_flag given = (case given of None \<Rightarrow> True | Some b \<Rightarrow> b)"

definition generate_password_kwargs ::
  "kwargs \<Rightarrow> entropy \<Rightarrow> nat \<Rightarrow> (error + py_str) \<times> nat" where
  "generate_password_kwargs kw =
     generate_password
       (arg_length kw)
       (arg_flag (kw_use_lowercase kw))
       (arg_flag (kw_use_uppercase kw))
       (arg_flag (kw_use_digits kw))
       (arg_flag (kw_use_symbols kw))
       (arg_flag (kw_exclude_similar kw))"

text \<open>
  The list comprehension \<^verbatim>\<open>[self.generate_password(**kwargs) for _ in range(count)]\<close>:
  the calls run one after the other, and an exception of a call ends the comprehension.
\<close>

fun generate_loop :: "nat \<Rightarrow> kwargs \<Rightarrow> entropy \<Rightarrow> nat \<Rightarrow> (error + py_str list) \<times> nat" where
  "generate_loop 0 kw src pos = (Inr [], pos)"
| "generate_loop (Suc n) kw src pos =
     (case generate_password_kwargs kw src pos of
        (Inl e, pos') \<Rightarrow> (Inl e, pos')
      | (Inr p, pos') \<Rightarrow>
          (case generate_loop n kw src pos' of
             (Inl e, pos'') \<Rightarrow> (Inl e, pos'')
           | (Inr ps, pos'') \<Rightarrow> (Inr (p # ps), pos'')))"

definition generate_multiple_passwords ::
  "int \<Rightarrow> kwargs \<Rightarrow> entropy \<Rightarrow> nat \<Rightarrow> (error + py_str list) \<times> nat" where
  "generate_multiple_passwords count kw src pos = generate_loop (nat count) kw src pos"

subsection \<open>\<^verbatim>\<open>estimate_password_strength\<close>\<close>

definition estimate_password_strength :: "py_str \<Rightarrow> strength_report" where
  "estimate_password_strength password =
     (let len = int (length password);
          has_lower = any_in string_ascii_lowercase password;
          has_upper = any_in string_ascii_uppercase password;
          has_digit = any_in string_digits password;
          has_symbol = any_in string_punctuation password;
          score0 = 0;
          score1 = score0 + min (len * 4) 40;
          score2 = score1 + (if has_lower then 15 else 0);
          score3 = score2 + (if has_upper then 15 else 0);
          score4 = score3 + (if has_digit then 15 else 0);
          score5 = score4 + (if has_symbol then 15 else 0);
          strength_level =
            (if score5 \<ge> 80 then ''Very Strong''
             else if score5 \<ge> 60 then ''Strong''
             else if score5 \<ge> 40 then ''Moderate''
             else if score5 \<ge> 20 then ''Weak''
             else ''Very Weak'')
      in \<lparr> score = score5,
           strength = strength_level,
           length_val = len,
           has_lowercase = has_lower,
           has_uppercase = has_upper,
           has_digits = has_digit,
           has_symbols = has_symbol \<rparr>)"

subsection \<open>The vocabulary of the specification\<close>

text \<open>A request is valid when its length is in \<open>[8, 128]\<close> and a class is enabled.\<close>

definition valid_request :: "int \<Rightarrow> bool \<Rightarrow> bool \<Rightarrow> bool \<Rightarrow> bool \<Rightarrow> bool" where
  "valid_request len use_lowercase use_uppercase use_digits use_symbols \<longleftrightarrow>
     8 \<le> len \<and> len \<le> 128 \<and> (use_lowercase \<or> use_uppercase \<or> use_digits \<or> use_symbols)"

definition kwargs_valid :: "kwargs \<Rightarrow> bool" where
  "kwargs_valid kw \<longleftrightarrow>
     valid_request (arg_length kw) (arg_flag (kw_use_lowercase kw))
       (arg_flag (kw_use_uppercase kw)) (arg_flag (kw_use_digits kw))
       (arg_flag (kw_use_symbols kw))"

text \<open>The visually similar characters \<^verbatim>\<open>l o I O 0 1\<close>.\<close>

definition similar_characters :: py_str where
  "similar_characters = map of_char ''loIO01''"

text \<open>
  The strength score and label in the words of the specification: four character classes,
  each with its canonical alphabet; the score is \<open>min (length \<times> 4, 40)\<close> plus 15 for each
  class present; the label is that of the first threshold, from the highest down, that
  the score reaches, and \<^verbatim>\<open>Very Weak\<close> when it reaches none.
\<close>

datatype character_class = Lowercase | Uppercase | Digit | Symbol

fun canonical_alphabet :: "character_class \<Rightarrow> py_str" where
  "canonical_alphabet Lowercase = string_ascii_lowercase"
| "canonical_alphabet Uppercase = string_ascii_uppercase"
| "canonical_alphabet Digit = string_digits"
| "canonical_alphabet Symbol = string_punctuation"

definition class_present :: "character_class \<Rightarrow> py_str \<Rightarrow> bool" where
  "class_present cls password = (set password \<inter> set (canonical_alphabet cls) \<noteq> {})"

definition spec_score :: "py_str \<Rightarrow> int" where
  "spec_score password =
     min (int (length password) * 4) 40
     + 15 * int (length (filter (\<lambda>cls. class_present cls password)
                           [Lowercase, Uppercase, Digit, Symbol]))"

definition spec_label :: "int \<Rightarrow> string" where
  "spec_label s =
     (case find (\<lambda>(threshold, label). threshold \<le> s)
             [(80, ''Very Strong''), (60, ''Strong''), (40, ''Moderate''), (20, ''Weak'')] of
        Some (threshold, label) \<Rightarrow> label
      | None \<Rightarrow> ''Very Weak'')"

section \<open>Facts about the embedding\<close>

subsection \<open>The four alphabets as ranges of code points\<close>

lemma string_ascii_lowercase_iff:
  "c \<in> set string_ascii_lowercase \<longleftrightarrow> 97 \<le> c \<and> c \<le> 122"
  unfolding string_ascii_lowercase_def by simp presburger

lemma string_ascii_uppercase_iff:
  "c \<in> set string_ascii_uppercase \<longleftrightarrow> 65 \<le> c \<and> c \<le> 90"
  unfolding string_ascii_uppercase_def by simp presburger

lemma string_digits_iff:
  "c \<in> set string_digits \<longleftrightarrow> 48 \<le> c \<and> c \<le> 57"
  unfolding string_digits_def by simp presburger

lemma string_punctuation_iff:
  "c \<in> set string_punctuation \<longleftrightarrow>
     (33 \<le> c \<and> c \<le> 47) \<or> (58 \<le> c \<and> c \<le> 64) \<or> (91 \<le> c \<and> c \<le> 96) \<or> (123 \<le> c \<and> c \<le> 126)"
  unfolding string_punctuation_def by simp presburger

lemma similar_characters_set: "set similar_characters = {108, 111, 73, 79, 48, 49}"
  by (simp add: similar_characters_def)

lemma any_in_iff: "any_in char_set password \<longleftrightarrow> (\<exists>c \<in> set password. c \<in> set char_set)"
  by (simp add: any_in_def list_ex_iff)

subsection \<open>Drawing\<close>

text \<open>
  From a non-empty pool the loop of \<^verbatim>\<open>_generate_secure_password\<close> never raises: it makes
  exactly \<open>n\<close> draws and the \<open>k\<close>-th character is the pool element chosen by the draw
  number \<open>pos + k\<close>.
\<close>

lemma draw_chars_closed:
  "char_pool \<noteq> [] \<Longrightarrow>
   draw_chars src pos char_pool n =
     (Inr (map (\<lambda>i. char_pool ! (src i mod length char_pool)) [pos..<pos + n]), pos + n)"
proof (induction n arbitrary: pos)
  case 0
  then show ?case by simp
next
  case (Suc n)
  have "[pos..<pos + Suc n] = pos # [Suc pos..<Suc pos + n]"
    by (simp add: upt_conv_Cons)
  with Suc show ?case by (simp add: secrets_choice_def)
qed

lemma draw_chars_empty_pool:
  "draw_chars src pos [] (Suc n) = (Inl (IndexError ''Cannot choose from an empty sequence''), pos)"
  by (simp add: secrets_choice_def)

subsection \<open>The character pool\<close>

lemma set_replace_empty: "set (replace_empty c s) = set s - {of_char c}"
  by (auto simp: replace_empty_def)

lemma build_character_pool_set:
  "set (build_character_pool ul uu ud us ex) =
     (if ul then set string_ascii_lowercase - (if ex then {of_char CHR ''l'', of_char CHR ''o''} else {}) else {})
   \<union> (if uu then set string_ascii_uppercase - (if ex then {of_char CHR ''I'', of_char CHR ''O''} else {}) else {})
   \<union> (if ud then set string_digits - (if ex then {of_char CHR ''0'', of_char CHR ''1''} else {}) else {})
   \<union> (if us then set string_punctuation else {})"
  unfolding build_character_pool_def character_sets_def Let_def
  by (auto simp: set_replace_empty)

lemma build_character_pool_nonempty:
  assumes "ul \<or> uu \<or> ud \<or> us"
  shows "build_character_pool ul uu ud us ex \<noteq> []"
proof -
  have "97 \<in> set string_ascii_lowercase" "65 \<in> set string_ascii_uppercase"
    "50 \<in> set string_digits" "33 \<in> set string_punctuation"
    by (simp_all add: string_ascii_lowercase_iff string_ascii_uppercase_iff
        string_digits_iff string_punctuation_iff)
  with assms have "set (build_character_pool ul uu ud us ex) \<noteq> {}"
    unfolding build_character_pool_set by auto
  then show ?thesis by auto
qed

lemma pool_no_similar:
  "set (build_character_pool ul uu ud us True) \<inter> set similar_characters = {}"
  unfolding build_character_pool_set similar_characters_set
  by (auto simp: string_ascii_lowercase_iff string_ascii_uppercase_iff string_digits_iff
      string_punctuation_iff)

subsection \<open>The requirement check\<close>

lemma check_requirements_ok_iff:
  "check_requirements password reqs = Inr () \<longleftrightarrow>
     list_all (\<lambda>(required, char_set, name). required \<longrightarrow> any_in char_set password) reqs"
  by (induction password reqs rule: check_requirements.induct) auto

lemma check_requirements_error:
  "check_requirements password reqs = Inl e \<Longrightarrow>
   \<exists>name \<in> set (map (\<lambda>(required, char_set, name). name) reqs).
     e = RuntimeError (''Failed to generate password with '' @ name @ '' characters'')"
  by (induction password reqs rule: check_requirements.induct) (auto split: if_splits)

lemma ensure_password_requirements_ok_iff:
  "ensure_password_requirements password ul uu ud us = Inr () \<longleftrightarrow>
     (ul \<longrightarrow> any_in string_ascii_lowercase password) \<and>
     (uu \<longrightarrow> any_in string_ascii_uppercase password) \<and>
     (ud \<longrightarrow> any_in string_digits password) \<and>
     (us \<longrightarrow> any_in string_punctuation password)"
  by (simp add: ensure_password_requirements_def requirements_def check_requirements_ok_iff)

lemma ensure_password_requirements_error:
  assumes "ensure_password_requirements password ul uu ud us = Inl e"
  shows "\<exists>msg. e = RuntimeError msg"
  using check_requirements_error [OF assms [unfolded ensure_password_requirements_def]]
  by auto

lemma validate_parameters_ok:
  "8 \<le> len \<Longrightarrow> len \<le> 128 \<Longrightarrow> ul \<or> uu \<or> ud \<or> us \<Longrightarrow>
   validate_parameters len ul uu ud us = Inr ()"
  by (auto simp: validate_parameters_def)

subsection \<open>One call of \<^verbatim>\<open>generate_password\<close>\<close>

text \<open>
  On a valid request the call draws exactly \<^verbatim>\<open>length\<close> characters, checks them once, and
  either returns them or raises the error of the check: the outcome is fixed by the draws
  \<open>pos, \<dots>, pos + length - 1\<close> alone.
\<close>

lemma generate_password_valid:
  assumes "8 \<le> len" "len \<le> 128" "ul \<or> uu \<or> ud \<or> us"
  shows "generate_password len ul uu ud us ex src pos =
     (let char_pool = build_character_pool ul uu ud us ex;
          password = map (\<lambda>i. char_pool ! (src i mod length char_pool)) [pos..<pos + nat len]
      in (case ensure_password_requirements password ul uu ud us of
            Inl e \<Rightarrow> Inl e | Inr _ \<Rightarrow> Inr password,
          pos + nat len))"
  using assms
  by (simp add: generate_password_def validate_parameters_ok generate_secure_password_def
      draw_chars_closed build_character_pool_nonempty Let_def split: sum.splits)

lemma generate_password_returns:
  assumes "valid_request len ul uu ud us"
    and "generate_password len ul uu ud us ex src pos = (Inr password, pos')"
  shows "password = map (\<lambda>i. build_character_pool ul uu ud us ex
                            ! (src i mod length (build_character_pool ul uu ud us ex)))
                     [pos..<pos + nat len]"
    and "ensure_password_requirements password ul uu ud us = Inr ()"
    and "pos' = pos + nat len"
  using assms unfolding valid_request_def
  by (auto simp: generate_password_valid Let_def split: sum.splits)

lemma password_subset_pool:
  assumes "valid_request len ul uu ud us"
    and "generate_password len ul uu ud us ex src pos = (Inr password, pos')"
  shows "set password \<subseteq> set (build_character_pool ul uu ud us ex)"
proof -
  have ne: "build_character_pool ul uu ud us ex \<noteq> []"
    using assms(1) by (simp add: valid_request_def build_character_pool_nonempty)
  show ?thesis
    unfolding generate_password_returns(1) [OF assms] using ne by auto
qed

subsection \<open>The batch loop\<close>

lemma generate_password_kwargs_draws:
  assumes "kwargs_valid kw"
  shows "snd (generate_password_kwargs kw src pos) = pos + nat (arg_length kw)"
  using assms unfolding generate_password_kwargs_def kwargs_valid_def valid_request_def
  by (simp add: generate_password_valid Let_def)

lemma generate_loop_Inr_iff:
  assumes "kwargs_valid kw"
  shows "generate_loop n kw src pos = (Inr ps, pos') \<longleftrightarrow>
     length ps = n \<and> pos' = pos + n * nat (arg_length kw) \<and>
     (\<forall>i<n. fst (generate_password_kwargs kw src (pos + i * nat (arg_length kw))) = Inr (ps ! i))"
proof (induction n arbitrary: pos ps)
  case 0
  then show ?case by auto
next
  case (Suc n)
  obtain r where r: "generate_password_kwargs kw src pos = (r, pos + nat (arg_length kw))"
    using generate_password_kwargs_draws [OF assms, of src pos]
    by (cases "generate_password_kwargs kw src pos") auto
  show ?case
  proof (cases r)
    case (Inl e)
    with r show ?thesis by (auto simp: dest: spec [of _ 0])
  next
    case (Inr p)
    show ?thesis
    proof (cases ps)
      case Nil
      with r Inr show ?thesis by (auto split: prod.splits sum.splits)
    next
      case (Cons q qs)
      have "generate_loop (Suc n) kw src pos = (Inr (q # qs), pos') \<longleftrightarrow>
          p = q \<and> generate_loop n kw src (pos + nat (arg_length kw)) = (Inr qs, pos')"
        using r Inr by (auto split: prod.splits sum.splits)
      also have "\<dots> \<longleftrightarrow> p = q \<and> length qs = n \<and> pos' = pos + nat (arg_length kw) + n * nat (arg_length kw) \<and>
         (\<forall>i<n. fst (generate_password_kwargs kw src (pos + nat (arg_length kw) + i * nat (arg_length kw))) = Inr (qs ! i))"
        by (simp add: Suc.IH)
      also have "\<dots> \<longleftrightarrow> length (q # qs) = Suc n \<and> pos' = pos + Suc n * nat (arg_length kw) \<and>
         (\<forall>i<Suc n. fst (generate_password_kwargs kw src (pos + i * nat (arg_length kw))) = Inr ((q # qs) ! i))"
        using r Inr by (auto simp: All_less_Suc2 add.assoc add.commute add.left_commute)
      finally show ?thesis using Cons by simp
    qed
  qed
qed

subsection \<open>The strength report\<close>

lemma class_present_iff: "class_present cls password \<longleftrightarrow> any_in (canonical_alphabet cls) password"
  by (auto simp: class_present_def any_in_iff)

lemma spec_label_cases:
  "spec_label s =
     (if 80 \<le> s then ''Very Strong'' else if 60 \<le> s then ''Strong''
      else if 40 \<le> s then ''Moderate'' else if 20 \<le> s then ''Weak'' else ''Very Weak'')"
  by (simp add: spec_label_def)

lemma estimate_password_strength_score:
  "score (estimate_password_strength password) =
     min (int (length password) * 4) 40
     + (if any_in string_ascii_lowercase password then 15 else 0)
     + (if any_in string_ascii_uppercase password then 15 else 0)
     + (if any_in string_digits password then 15 else 0)
     + (if any_in string_punctuation password then 15 else 0)"
  by (simp add: estimate_password_strength_def Let_def)

lemma estimate_password_strength_label:
  "strength (estimate_password_strength password) =
     (let s = score (estimate_password_strength password)
      in if 80 \<le> s then ''Very Strong'' else if 60 \<le> s then ''Strong''
         else if 40 \<le> s then ''Moderate'' else if 20 \<le> s then ''Weak'' else ''Very Weak'')"
  by (simp add: estimate_password_strength_def Let_def)

lemma estimate_password_strength_flags:
  "length_val (estimate_password_strength password) = int (length password)"
  "has_lowercase (estimate_password_strength password) = any_in string_ascii_lowercase password"
  "has_uppercase (estimate_password_strength password) = any_in string_ascii_uppercase password"
  "has_digits (estimate_password_strength password) = any_in string_digits password"
  "has_symbols (estimate_password_strength password) = any_in string_punctuation password"
  by (simp_all add: estimate_password_strength_def Let_def)

section \<open>The claims\<close>

subsection \<open>No redraw after a failed requirement check\<close>

text \<open>
  On a valid request, when the characters drawn miss an enabled class, the call ends with
  the \<^verbatim>\<open>RuntimeError\<close> of \<^verbatim>\<open>_ensure_password_requirements\<close> after exactly \<^verbatim>\<open>length\<close>
  draws: there is one attempt and no second draw.
\<close>

lemma generate_password_single_attempt:
  assumes "valid_request len ul uu ud us"
    and "ensure_password_requirements
           (map (\<lambda>i. build_character_pool ul uu ud us ex
                        ! (src i mod length (build_character_pool ul uu ud us ex)))
              [pos..<pos + nat len]) ul uu ud us \<noteq> Inr ()"
  shows "\<exists>msg. generate_password len ul uu ud us ex src pos
           = (Inl (RuntimeError msg), pos + nat len)"
proof -
  let ?password = "map (\<lambda>i. build_character_pool ul uu ud us ex
                        ! (src i mod length (build_character_pool ul uu ud us ex)))
                     [pos..<pos + nat len]"
  obtain e where e: "ensure_password_requirements ?password ul uu ud us = Inl e"
    using assms(2) by (cases "ensure_password_requirements ?password ul uu ud us") auto
  from ensure_password_requirements_error [OF e] obtain msg where "e = RuntimeError msg" ..
  with e assms(1) show ?thesis
    by (simp add: valid_request_def generate_password_valid Let_def)
qed

text \<open>
  Claim C1 says that \<^verbatim>\<open>generate_password\<close> redraws the whole password when the drawn
  sequence misses an enabled class, and fails only after many redraw attempts. The
  docstring of \<^verbatim>\<open>_ensure_password_requirements\<close> says the same (``If not, regenerate until
  it does''), but the body raises at once. For the request of length 8 with every class
  enabled and similar characters excluded, when the eight draws choose the pool indices
  \<open>0, \<dots>, 7\<close> the drawn sequence is \<^verbatim>\<open>abcdefgh\<close>; the call raises \<^verbatim>\<open>RuntimeError\<close> for the
  missing uppercase class after these eight draws, and nothing is drawn again.
\<close>

theorem generate_password_raises_without_redraw:
  "generate_password 8 True True True True True (\<lambda>i. i) 0 =
     (Inl (RuntimeError ''Failed to generate password with uppercase characters''), Suc 7)
   \<and> map (\<lambda>i. build_character_pool True True True True True ! i) [0, 1, 2, 3, 4, 5, 6, 7]
       = map of_char ''abcdefgh''"
  by code_simp

subsection \<open>Invalid parameters\<close>

text \<open>
  Claim C2: for every request with length below 8 or above 128, and for every request
  with no character class enabled, \<^verbatim>\<open>generate_password\<close> fails with \<^verbatim>\<open>ValueError\<close> (the
  specification's \<^verbatim>\<open>InvalidParameter\<close>); the error does not depend on the random source,
  no draw has been made (the number of draws is unchanged), and no password is returned.
\<close>

theorem generate_password_invalid_parameter:
  assumes "len < 8 \<or> len > 128 \<or> \<not> (ul \<or> uu \<or> ud \<or> us)"
  shows "\<exists>msg. \<forall>src. generate_password len ul uu ud us ex src pos = (Inl (ValueError msg), pos)"
  using assms by (auto simp: generate_password_def validate_parameters_def)

theorem generate_password_invalid_parameter_witness:
  "((7::int) < 8 \<or> (7::int) > 128 \<or> \<not> (True \<or> True \<or> True \<or> True))
   \<and> (\<exists>msg. \<forall>src. generate_password 7 True True True True True src 3 = (Inl (ValueError msg), 3))
   \<and> generate_password 7 True True True True True (\<lambda>i. i) 3 =
       (Inl (ValueError ''Password length must be at least 8 characters''), 3)
   \<and> generate_password 129 True True True True True (\<lambda>i. i) 3 =
       (Inl (ValueError ''Password length cannot exceed 128 characters''), 3)
   \<and> generate_password 16 False False False False True (\<lambda>i. i) 3 =
       (Inl (ValueError ''At least one character set must be selected''), 3)"
  using generate_password_invalid_parameter [of 7 True True True True True 3]
  by (simp add: generate_password_def validate_parameters_def)

subsection \<open>Length of a returned password\<close>

text \<open>
  Claim C3: for every valid request (length in \<open>[8, 128]\<close>, at least one class enabled),
  the password returned by \<^verbatim>\<open>generate_password\<close> has exactly the requested length.
\<close>

theorem generate_password_length:
  assumes "valid_request len ul uu ud us"
    and "generate_password len ul uu ud us ex src pos = (Inr password, pos')"
  shows "int (length password) = len"
  using generate_password_returns(1) [OF assms] assms(1)
  by (simp add: valid_request_def)

theorem generate_password_length_witness:
  "valid_request 8 True True True True
   \<and> generate_password 8 True True True True True (\<lambda>i. i * 24) 0
       = (Inr [97, 65, 50, 59, 105, 74, 33, 93], 8)
   \<and> int (length [97, 65, 50, 59, 105, 74, 33, 93 :: nat]) = 8"
proof -
  have v: "valid_request 8 True True True True"
    by (simp add: valid_request_def)
  have run: "generate_password 8 True True True True True (\<lambda>i. i * 24) 0
       = (Inr [97, 65, 50, 59, 105, 74, 33, 93], 8)"
    by code_simp
  from v run generate_password_length [OF v run] show ?thesis
    by simp
qed

subsection \<open>Every enabled class occurs in a returned password\<close>

text \<open>
  Claim C4: for every valid request and every enabled character class, a password that
  \<^verbatim>\<open>generate_password\<close> returns contains at least one character of the full, unfiltered
  alphabet of that class.
\<close>

theorem generate_password_contains_enabled_classes:
  assumes "valid_request len ul uu ud us"
    and "generate_password len ul uu ud us ex src pos = (Inr password, pos')"
  shows "(ul \<longrightarrow> (\<exists>c \<in> set password. c \<in> set string_ascii_lowercase)) \<and>
         (uu \<longrightarrow> (\<exists>c \<in> set password. c \<in> set string_ascii_uppercase)) \<and>
         (ud \<longrightarrow> (\<exists>c \<in> set password. c \<in> set string_digits)) \<and>
         (us \<longrightarrow> (\<exists>c \<in> set password. c \<in> set string_punctuation))"
  using generate_password_returns(2) [OF assms]
  by (simp add: ensure_password_requirements_ok_iff any_in_iff)

theorem generate_password_contains_enabled_classes_witness:
  "valid_request 10 True False True True
   \<and> generate_password 10 True False True True True (\<lambda>i. i * 13) 0
       = (Inr [97, 112, 52, 40, 63, 98, 113, 53, 41, 64], 10)
   \<and> any_in string_ascii_lowercase [97, 112, 52, 40, 63, 98, 113, 53, 41, 64]
   \<and> any_in string_digits [97, 112, 52, 40, 63, 98, 113, 53, 41, 64]
   \<and> any_in string_punctuation [97, 112, 52, 40, 63, 98, 113, 53, 41, 64]"
proof -
  have v: "valid_request 10 True False True True"
    by (simp add: valid_request_def)
  have run: "generate_password 10 True False True True True (\<lambda>i. i * 13) 0
       = (Inr [97, 112, 52, 40, 63, 98, 113, 53, 41, 64], 10)"
    by code_simp
  from v run generate_password_contains_enabled_classes [OF v run] show ?thesis
    by (simp add: any_in_iff)
qed

subsection \<open>Excluding similar characters\<close>

text \<open>
  Claim C5: for every valid request with \<^verbatim>\<open>exclude_similar\<close> set, the pool is the lowercase
  alphabet without \<^verbatim>\<open>l\<close> and \<^verbatim>\<open>o\<close>, the uppercase alphabet without \<^verbatim>\<open>I\<close> and \<^verbatim>\<open>O\<close>, the
  digits without \<^verbatim>\<open>0\<close> and \<^verbatim>\<open>1\<close> and the unfiltered symbols, each for an enabled class;
  none of the six characters is a symbol; so a returned password contains none of
  \<^verbatim>\<open>l o I O 0 1\<close>.
\<close>

theorem generate_password_exclude_similar:
  assumes "valid_request len ul uu ud us"
    and "generate_password len ul uu ud us True src pos = (Inr password, pos')"
  shows "(\<forall>c \<in> set password. c \<notin> set similar_characters)
       \<and> build_character_pool ul uu ud us True =
           (if ul then filter (\<lambda>c. c \<noteq> of_char CHR ''l'' \<and> c \<noteq> of_char CHR ''o'')
                         string_ascii_lowercase else [])
         @ (if uu then filter (\<lambda>c. c \<noteq> of_char CHR ''I'' \<and> c \<noteq> of_char CHR ''O'')
                         string_ascii_uppercase else [])
         @ (if ud then filter (\<lambda>c. c \<noteq> of_char CHR ''0'' \<and> c \<noteq> of_char CHR ''1'')
                         string_digits else [])
         @ (if us then string_punctuation else [])
       \<and> set string_punctuation \<inter> set similar_characters = {}"
proof -
  have a: "\<forall>c \<in> set password. c \<notin> set similar_characters"
    using password_subset_pool [OF assms] pool_no_similar [of ul uu ud us] by blast
  have b: "build_character_pool ul uu ud us True =
           (if ul then filter (\<lambda>c. c \<noteq> of_char CHR ''l'' \<and> c \<noteq> of_char CHR ''o'')
                         string_ascii_lowercase else [])
         @ (if uu then filter (\<lambda>c. c \<noteq> of_char CHR ''I'' \<and> c \<noteq> of_char CHR ''O'')
                         string_ascii_uppercase else [])
         @ (if ud then filter (\<lambda>c. c \<noteq> of_char CHR ''0'' \<and> c \<noteq> of_char CHR ''1'')
                         string_digits else [])
         @ (if us then string_punctuation else [])"
    unfolding build_character_pool_def character_sets_def Let_def replace_empty_def
    by (simp add: conj_commute)
  have c: "set string_punctuation \<inter> set similar_characters = {}"
    using pool_no_similar [of False False False True]
    by (simp add: build_character_pool_set)
  from a b c show ?thesis by blast
qed

theorem generate_password_exclude_similar_witness:
  "valid_request 9 False True True False
   \<and> generate_password 9 False True True False True (\<lambda>i. 5 * i + 1) 2
       = (Inr [77, 83, 88, 52, 57, 69, 75, 81, 86], 11)
   \<and> list_all (\<lambda>c. c \<notin> set similar_characters) [77, 83, 88, 52, 57, 69, 75, 81, 86]"
proof -
  have v: "valid_request 9 False True True False"
    by (simp add: valid_request_def)
  have run: "generate_password 9 False True True False True (\<lambda>i. 5 * i + 1) 2
       = (Inr [77, 83, 88, 52, 57, 69, 75, 81, 86], 11)"
    by code_simp
  from v run generate_password_exclude_similar [OF v run] show ?thesis
    by (simp add: similar_characters_set)
qed

subsection \<open>Strength score and label\<close>

text \<open>
  Claim C6: for every input string, \<^verbatim>\<open>estimate_password_strength\<close> returns the score
  \<open>min (length \<times> 4, 40)\<close> plus 15 for each of the four classes present in the string
  (membership in the full alphabet of the class), at most 100, and the label of the first
  threshold reached among 80 (\<^verbatim>\<open>Very Strong\<close>), 60 (\<^verbatim>\<open>Strong\<close>), 40 (\<^verbatim>\<open>Moderate\<close>) and 20
  (\<^verbatim>\<open>Weak\<close>), otherwise \<^verbatim>\<open>Very Weak\<close>; the empty string has score 0, label \<^verbatim>\<open>Very Weak\<close>
  and no class present.
\<close>

theorem estimate_password_strength_score_label:
  "score (estimate_password_strength password) = spec_score password
   \<and> score (estimate_password_strength password) \<le> 100
   \<and> strength (estimate_password_strength password) =
       spec_label (score (estimate_password_strength password))
   \<and> strength (estimate_password_strength password) =
       (if score (estimate_password_strength password) \<ge> 80 then ''Very Strong''
        else if score (estimate_password_strength password) \<ge> 60 then ''Strong''
        else if score (estimate_password_strength password) \<ge> 40 then ''Moderate''
        else if score (estimate_password_strength password) \<ge> 20 then ''Weak''
        else ''Very Weak'')
   \<and> has_lowercase (estimate_password_strength password) = class_present Lowercase password
   \<and> has_uppercase (estimate_password_strength password) = class_present Uppercase password
   \<and> has_digits (estimate_password_strength password) = class_present Digit password
   \<and> has_symbols (estimate_password_strength password) = class_present Symbol password
   \<and> estimate_password_strength [] =
       \<lparr> score = 0, strength = ''Very Weak'', length_val = 0, has_lowercase = False,
         has_uppercase = False, has_digits = False, has_symbols = False \<rparr>"
proof -
  have s: "score (estimate_password_strength password) = spec_score password"
    by (simp add: estimate_password_strength_score spec_score_def class_present_iff)
  define m where "m = min (int (length password) * 4) 40"
  have "m \<le> 40"
    by (simp add: m_def)
  then have b: "score (estimate_password_strength password) \<le> 100"
    unfolding estimate_password_strength_score m_def [symmetric] by simp
  have l: "strength (estimate_password_strength password) =
       (if score (estimate_password_strength password) \<ge> 80 then ''Very Strong''
        else if score (estimate_password_strength password) \<ge> 60 then ''Strong''
        else if score (estimate_password_strength password) \<ge> 40 then ''Moderate''
        else if score (estimate_password_strength password) \<ge> 20 then ''Weak''
        else ''Very Weak'')"
    by (simp add: estimate_password_strength_label Let_def)
  have l': "strength (estimate_password_strength password) =
       spec_label (score (estimate_password_strength password))"
    unfolding spec_label_cases by (rule l)
  have e: "estimate_password_strength [] =
       \<lparr> score = 0, strength = ''Very Weak'', length_val = 0, has_lowercase = False,
         has_uppercase = False, has_digits = False, has_symbols = False \<rparr>"
    by (simp add: estimate_password_strength_def any_in_def)
  have f: "has_lowercase (estimate_password_strength password) = class_present Lowercase password"
    "has_uppercase (estimate_password_strength password) = class_present Uppercase password"
    "has_digits (estimate_password_strength password) = class_present Digit password"
    "has_symbols (estimate_password_strength password) = class_present Symbol password"
    by (simp_all add: estimate_password_strength_flags class_present_iff)
  from s b l l' e f show ?thesis
    by blast
qed

theorem estimate_password_strength_score_label_witness:
  "estimate_password_strength (map of_char ''aaaaaaaa'') =
     \<lparr> score = 47, strength = ''Moderate'', length_val = 8, has_lowercase = True,
       has_uppercase = False, has_digits = False, has_symbols = False \<rparr>
   \<and> spec_score (map of_char ''aaaaaaaa'') = 47
   \<and> spec_label 47 = ''Moderate''
   \<and> estimate_password_strength (map of_char ''aA1!aA1!aA'') =
     \<lparr> score = 100, strength = ''Very Strong'', length_val = 10, has_lowercase = True,
       has_uppercase = True, has_digits = True, has_symbols = True \<rparr>
   \<and> spec_score (map of_char ''aA1!aA1!aA'') = 100
   \<and> score (estimate_password_strength (map of_char ''aA1!'')) = 76
   \<and> strength (estimate_password_strength (map of_char ''aA1!'')) = ''Strong''
   \<and> score (estimate_password_strength (map of_char ''aaaaa'')) = 35
   \<and> strength (estimate_password_strength (map of_char ''aaaaa'')) = ''Weak''
   \<and> score (estimate_password_strength [32]) = 4
   \<and> strength (estimate_password_strength [32]) = ''Very Weak''"
proof -
  have r: "estimate_password_strength (map of_char ''aaaaaaaa'') =
     \<lparr> score = 47, strength = ''Moderate'', length_val = 8, has_lowercase = True,
       has_uppercase = False, has_digits = False, has_symbols = False \<rparr>"
    "estimate_password_strength (map of_char ''aA1!aA1!aA'') =
     \<lparr> score = 100, strength = ''Very Strong'', length_val = 10, has_lowercase = True,
       has_uppercase = True, has_digits = True, has_symbols = True \<rparr>"
    "estimate_password_strength (map of_char ''aA1!'') =
     \<lparr> score = 76, strength = ''Strong'', length_val = 4, has_lowercase = True,
       has_uppercase = True, has_digits = True, has_symbols = True \<rparr>"
    "estimate_password_strength (map of_char ''aaaaa'') =
     \<lparr> score = 35, strength = ''Weak'', length_val = 5, has_lowercase = True,
       has_uppercase = False, has_digits = False, has_symbols = False \<rparr>"
    "estimate_password_strength [32] =
     \<lparr> score = 4, strength = ''Very Weak'', length_val = 1, has_lowercase = False,
       has_uppercase = False, has_digits = False, has_symbols = False \<rparr>"
    by code_simp+
  from r estimate_password_strength_score_label [of "map of_char ''aaaaaaaa''"]
    estimate_password_strength_score_label [of "map of_char ''aA1!aA1!aA''"]
  show ?thesis
    by (simp add: spec_label_cases)
qed

subsection \<open>The batch\<close>

text \<open>
  On a valid request and a count \<open>N \<ge> 0\<close>, the comprehension makes its calls of
  \<^verbatim>\<open>generate_password\<close> one after the other with the arguments of the caller, each on its
  own block of \<^verbatim>\<open>length\<close> draws. It returns exactly when each of the \<open>N\<close> calls returns,
  and then the list has \<open>N\<close> passwords, the \<open>i\<close>-th being the password of the \<open>i\<close>-th call.
  Count 0 gives the empty list.
\<close>

lemma generate_multiple_passwords_returns_iff:
  assumes "kwargs_valid kw" and "0 \<le> count"
  shows "generate_multiple_passwords count kw src pos = (Inr passwords, pos') \<longleftrightarrow>
            int (length passwords) = count \<and>
            pos' = pos + nat count * nat (arg_length kw) \<and>
            (\<forall>i < nat count.
               fst (generate_password (arg_length kw)
                      (arg_flag (kw_use_lowercase kw)) (arg_flag (kw_use_uppercase kw))
                      (arg_flag (kw_use_digits kw)) (arg_flag (kw_use_symbols kw))
                      (arg_flag (kw_exclude_similar kw))
                      src (pos + i * nat (arg_length kw)))
                 = Inr (passwords ! i))"
  using assms(2) generate_loop_Inr_iff [OF assms(1), of "nat count" src pos passwords pos']
  by (auto simp: generate_multiple_passwords_def generate_password_kwargs_def)

lemma generate_multiple_passwords_zero:
  "generate_multiple_passwords 0 kw src pos = (Inr [], pos)"
  by (simp add: generate_multiple_passwords_def)

text \<open>
  Claim C7 says that for every valid request and every count \<open>N \<ge> 0\<close> the batch returns a
  sequence of exactly \<open>N\<close> passwords, each from its own call of \<^verbatim>\<open>generate_password\<close> with
  the same request. The comprehension does make one call for each element, but a call
  that raises ends the batch, and \<^verbatim>\<open>generate_password\<close> raises instead of drawing again
  (the defect of claim C1, against the docstring of \<^verbatim>\<open>_ensure_password_requirements\<close>).
  For the batch request of the module's own \<^verbatim>\<open>main\<close> (count 3, length 12, lowercase,
  uppercase and digits, no symbols), which is valid: when the first twelve draws choose
  the pool indices \<open>0, 5, \<dots>, 55\<close> the first call returns a password, and when the next
  twelve draws all choose index 0 the second call draws \<^verbatim>\<open>aaaaaaaaaaaa\<close> and raises
  \<^verbatim>\<open>RuntimeError\<close>. The batch raises that error after 24 draws: no sequence is returned,
  the first password is lost and the third call is never made.
\<close>

theorem generate_multiple_passwords_raises_on_failed_call:
  "valid_request 12 True True True False
   \<and> generate_multiple_passwords 3
       \<lparr>kw_length = Some 12, kw_use_lowercase = Some True, kw_use_uppercase = Some True,
         kw_use_digits = Some True, kw_use_symbols = Some False, kw_exclude_similar = None\<rparr>
       (\<lambda>i. if i < 12 then i * 5 else 0) 0
     = (Inl (RuntimeError ''Failed to generate password with uppercase characters''), 24)
   \<and> generate_password 12 True True True False True (\<lambda>i. if i < 12 then i * 5 else 0) 0
     = (Inr [97, 102, 107, 114, 119, 66, 71, 77, 83, 88, 52, 57], 12)
   \<and> generate_password 12 True True True False True (\<lambda>i. if i < 12 then i * 5 else 0) 12
     = (Inl (RuntimeError ''Failed to generate password with uppercase characters''), 24)
   \<and> build_character_pool True True True False True ! 0 = of_char CHR ''a''"
  by code_simp

text \<open>
  Claim C10: for every negative count and any arguments, \<^verbatim>\<open>generate_multiple_passwords\<close>
  returns the empty sequence and raises nothing, as for count 0; no draw is made.
\<close>

theorem generate_multiple_passwords_negative_count:
  assumes "count < 0"
  shows "generate_multiple_passwords count kw src pos = (Inr [], pos)
       \<and> generate_multiple_passwords count kw src pos
           = generate_multiple_passwords 0 kw src pos"
  using assms by (simp add: generate_multiple_passwords_def)

theorem generate_multiple_passwords_negative_count_witness:
  "(- 3 :: int) < 0
   \<and> generate_multiple_passwords (- 3)
       \<lparr>kw_length = Some 12, kw_use_lowercase = None, kw_use_uppercase = None,
         kw_use_digits = None, kw_use_symbols = Some False, kw_exclude_similar = None\<rparr>
       (\<lambda>i. i) 5 = (Inr [], 5)"
  using generate_multiple_passwords_negative_count [of "- 3"
      "\<lparr>kw_length = Some 12, kw_use_lowercase = None, kw_use_uppercase = None,
         kw_use_digits = None, kw_use_symbols = Some False, kw_exclude_similar = None\<rparr>"
      "\<lambda>i. i" 5]
  by simp

subsection \<open>Strings with no character of the four classes\<close>

text \<open>
  For a string with no character in any of the four alphabets, the empty string among
  them, the report has every class flag false, the score \<open>min (length \<times> 4, 40)\<close> and the
  label of that score.
\<close>

lemma estimate_password_strength_no_class:
  assumes "\<forall>c \<in> set password. c \<notin> set string_ascii_lowercase
      \<and> c \<notin> set string_ascii_uppercase \<and> c \<notin> set string_digits
      \<and> c \<notin> set string_punctuation"
  shows "estimate_password_strength password =
           \<lparr> score = min (int (length password) * 4) 40,
             strength = (if 10 \<le> length password then ''Moderate''
                         else if 5 \<le> length password then ''Weak'' else ''Very Weak''),
             length_val = int (length password), has_lowercase = False,
             has_uppercase = False, has_digits = False, has_symbols = False \<rparr>"
proof -
  from assms have "\<not> any_in string_ascii_lowercase password"
    "\<not> any_in string_ascii_uppercase password" "\<not> any_in string_digits password"
    "\<not> any_in string_punctuation password"
    by (auto simp: any_in_iff)
  then show ?thesis
    by (simp add: estimate_password_strength_def Let_def)
qed

end
